theory Spec2Isabelle
  imports Complex_Main
begin

section \<open>Rounds of the APY estimation ABCI application\<close>

text \<open>
  A shallow embedding of \<^verbatim>\<open>packages/valory/skills/apy_estimation/rounds.py\<close>: the period
  state, the two rounds the module defines (\<^verbatim>\<open>CollectObservationRound\<close> and
  \<^verbatim>\<open>TransformRound\<close>), the helper \<^verbatim>\<open>_return_no_majority_event\<close> and the transition
  table of \<^verbatim>\<open>APYEstimationAbciApp\<close>.

  Python objects that the module shares by reference (the round's \<^verbatim>\<open>collection\<close>
  dictionary, which \<^verbatim>\<open>end_block\<close> wraps in a \<^verbatim>\<open>MappingProxyType\<close>) live in an explicit
  store; everything else is a value.
\<close>

subsection \<open>Events and errors\<close>

text \<open>
  \<^verbatim>\<open>Event\<close> is imported from \<^verbatim>\<open>price_estimation_abci.rounds\<close>; the members below are the
  ones \<^verbatim>\<open>rounds.py\<close> names.
\<close>

datatype Event =
    DONE
  | FAST_FORWARD
  | ROUND_TIMEOUT
  | NO_MAJORITY
  | DEPLOY_TIMEOUT
  | NEGATIVE
  | NONE
  | VALIDATE_TIMEOUT
  | FAILED
  | RESET_TIMEOUT

text \<open>
  Exceptions are values: \<^verbatim>\<open>NotImplementedError\<close> is raised by \<^verbatim>\<open>TransformRound.end_block\<close>,
  \<^verbatim>\<open>TypeError\<close> by an item assignment to or an item deletion from a \<^verbatim>\<open>mappingproxy\<close>
  object.
\<close>

datatype error = NotImplementedError | TypeError

subsection \<open>Payloads, dictionaries and the object store\<close>

text \<open>
  An \<^verbatim>\<open>ObservationPayload\<close> carries its sender and the attribute \<^verbatim>\<open>observation\<close>, which
  \<^verbatim>\<open>end_block\<close> reads with \<^verbatim>\<open>getattr(payload, self.payload_attribute)\<close>, where
  \<^verbatim>\<open>payload_attribute = "observation"\<close>. The type of an observation is left open.
\<close>

record 'o ObservationPayload =
  sender :: string
  observation :: 'o

text \<open>
  A Python \<^verbatim>\<open>dict\<close> keeps its items in insertion order and has one item per key: it is the
  list of its items, with pairwise distinct keys (\<open>wf_dict\<close>). The round's collection
  maps a sender to that sender's payload.
\<close>

type_synonym 'o dict = "(string \<times> 'o ObservationPayload) list"

definition wf_dict :: "'o dict \<Rightarrow> bool" where
  "wf_dict d = distinct (map fst d)"

definition dict_keys :: "'o dict \<Rightarrow> string set" where
  "dict_keys d = set (map fst d)"

definition dict_values :: "'o dict \<Rightarrow> 'o ObservationPayload list" where
  "dict_values d = map snd d"

definition dict_len :: "'o dict \<Rightarrow> nat" where
  "dict_len d = length d"

definition dict_get :: "'o dict \<Rightarrow> string \<Rightarrow> 'o ObservationPayload option" where
  "dict_get d k = map_of d k"

text \<open>\<^verbatim>\<open>d[k] = v\<close>: an existing key keeps its place, a new key goes last.\<close>

fun setitem :: "'o dict \<Rightarrow> string \<Rightarrow> 'o ObservationPayload \<Rightarrow> 'o dict" where
  "setitem [] k v = [(k, v)]"
| "setitem ((k', v') # d) k v =
     (if k' = k then (k, v) # d else (k', v') # setitem d k v)"

text \<open>
  Dictionaries are objects: a variable holds a reference, and the store gives the
  current contents of the object behind it.
\<close>

type_synonym ref = nat

type_synonym 'o store = "ref \<Rightarrow> 'o dict"


text \<open>
  \<^verbatim>\<open>types.MappingProxyType(d)\<close> is a new object that wraps the dictionary object \<^verbatim>\<open>d\<close>
  without copying it. Reading it reads \<^verbatim>\<open>d\<close> as it is at that moment; it has no
  \<^verbatim>\<open>__setitem__\<close> and no \<^verbatim>\<open>__delitem__\<close>, so \<^verbatim>\<open>proxy[k] = v\<close> and \<^verbatim>\<open>del proxy[k]\<close> raise
  \<^verbatim>\<open>TypeError\<close> and change nothing.
\<close>

datatype MappingProxyType = MappingProxyType ref

fun proxy_items :: "'o store \<Rightarrow> MappingProxyType \<Rightarrow> 'o dict" where
  "proxy_items h (MappingProxyType a) = h a"



subsection \<open>The period state\<close>

text \<open>
  The payload classes of the other rounds and the setup parameters are declared in other
  modules; \<^verbatim>\<open>rounds.py\<close> only stores them.
\<close>

typedecl SetupParams
typedecl RandomnessPayload
typedecl SelectKeeperPayload
typedecl ValidatePayload
typedecl TransformationPayload
typedecl EstimatePayload
typedecl TransactionHashPayload
typedecl SignaturePayload

text \<open>
  \<^verbatim>\<open>PeriodState.__init__\<close>: every parameter is optional and defaults to \<^verbatim>\<open>None\<close>. The
  fields are in the order of the parameters. \<open>'d\<close> is the type of the transformation (a
  \<^verbatim>\<open>pandas.DataFrame\<close> in the source). No arithmetic is done on the \<^verbatim>\<open>float\<close> fields.
\<close>

record 'd PeriodState =
  participants :: "string set option"
  period_count :: "int option"
  period_setup_params :: "SetupParams option"
  participant_to_randomness :: "(string \<rightharpoonup> RandomnessPayload) option"
  most_voted_randomness :: "string option"
  participant_to_selection :: "(string \<rightharpoonup> SelectKeeperPayload) option"
  most_voted_keeper_address :: "string option"
  safe_contract_address :: "string option"
  oracle_contract_address :: "string option"
  participant_to_votes :: "(string \<rightharpoonup> ValidatePayload) option"
  participant_to_observations :: "MappingProxyType option"
  participant_to_transformation :: "(string \<rightharpoonup> TransformationPayload) option"
  participant_to_estimate :: "(string \<rightharpoonup> EstimatePayload) option"
  transformation :: "'d option"
  estimate :: "real option"
  most_voted_estimate :: "real option"
  participant_to_tx_hash :: "(string \<rightharpoonup> TransactionHashPayload) option"
  most_voted_tx_hash :: "string option"
  participant_to_signature :: "(string \<rightharpoonup> SignaturePayload) option"
  final_tx_hash :: "string option"

text \<open>
  Modelled from the spec: \<^verbatim>\<open>BasePeriodState.update\<close> (defined in module
  \<^verbatim>\<open>abstract_round_abci.base\<close>, outside \<^verbatim>\<open>rounds.py\<close>). Section 4.2: it produces a new Period State that layers the newly
  supplied fields onto the fields of the prior state, without mutating the prior state.
  The two arguments are the keyword arguments of the one call in \<^verbatim>\<open>rounds.py\<close>.
\<close>

definition update :: "'d PeriodState \<Rightarrow> MappingProxyType \<Rightarrow> 'd \<Rightarrow> 'd PeriodState" where
  "update s new_participant_to_observations new_transformation =
     s\<lparr>participant_to_observations := Some new_participant_to_observations,
       transformation := Some new_transformation\<rparr>"

subsection \<open>Rounds\<close>

text \<open>
  A round instance holds the period state it was created with (\<^verbatim>\<open>self._state\<close>) and a
  reference to its collection dictionary (\<^verbatim>\<open>self.collection\<close>).
\<close>

record 'd AbstractRound =
  state :: "'d PeriodState"
  collection :: ref

text \<open>\<^verbatim>\<open>APYEstimationAbstractRound.period_state\<close>: the cast changes nothing at run time.\<close>

definition period_state :: "('d, 'z) AbstractRound_scheme \<Rightarrow> 'd PeriodState" where
  "period_state self = state self"


text \<open>
  Modelled from the spec: \<^verbatim>\<open>CollectDifferentUntilThresholdRound.collection_threshold_reached\<close>
  (defined in module \<^verbatim>\<open>abstract_round_abci.base\<close>, outside \<^verbatim>\<open>rounds.py\<close>). Section 4.1:
  quorum holds once the number of distinct senders having submitted reaches a configured threshold.
  The collection is keyed by sender, so that number is its length.
\<close>

definition collection_threshold_reached ::
  "nat \<Rightarrow> 'o store \<Rightarrow> ('d, 'z) AbstractRound_scheme \<Rightarrow> bool" where
  "collection_threshold_reached consensus_threshold h self =
     (consensus_threshold \<le> dict_len (h (collection self)))"

text \<open>
  \<^verbatim>\<open>CollectObservationRound.end_block\<close>. The function \<^verbatim>\<open>transform\<close> of
  \<^verbatim>\<open>apy_estimation.tools\<close> is defined outside \<^verbatim>\<open>rounds.py\<close> and is a parameter, as is
  the configured threshold. The result is \<open>Inr None\<close> for Python's \<^verbatim>\<open>None\<close>.
\<close>

definition CollectObservationRound_end_block ::
  "nat \<Rightarrow> ('o list \<Rightarrow> 'd) \<Rightarrow> 'o store \<Rightarrow> ('d, 'z) AbstractRound_scheme
     \<Rightarrow> error + ('d PeriodState \<times> Event) option" where
  "CollectObservationRound_end_block consensus_threshold transform h self =
     (if collection_threshold_reached consensus_threshold h self then
        let observations = map observation (dict_values (h (collection self)));
            transformation = transform observations;
            state' = update (period_state self)
                       (MappingProxyType (collection self)) transformation
        in Inr (Some (state', DONE))
      else Inr None)"

text \<open>\<^verbatim>\<open>TransformRound.end_block\<close>: \<^verbatim>\<open>raise NotImplementedError()\<close>.\<close>

definition TransformRound_end_block ::
  "'o store \<Rightarrow> ('d, 'z) AbstractRound_scheme \<Rightarrow> error + ('d PeriodState \<times> Event) option" where
  "TransformRound_end_block h self = Inl NotImplementedError"

subsection \<open>The transition table of \<^verbatim>\<open>APYEstimationAbciApp\<close>\<close>

text \<open>
  The round classes are the keys and the targets of \<^verbatim>\<open>transition_function\<close>. The table is
  a dictionary of dictionaries, written here as the list of its items in the order of the
  source.
\<close>

datatype RoundType =
    RegistrationRound
  | RandomnessStartupRound
  | SelectKeeperAStartupRound
  | DeploySafeRound
  | ValidateSafeRound
  | DeployOracleRound
  | SelectKeeperBStartupRound
  | ValidateOracleRound
  | RandomnessRound
  | SelectKeeperARound
  | CollectObservationRound
  | TransformRound
  | EstimateConsensusRound
  | TxHashRound
  | CollectSignatureRound
  | FinalizationRound
  | ValidateTransactionRound
  | SelectKeeperBRound
  | ResetRound
  | ResetAndPauseRound

text \<open>\<^verbatim>\<open>AbciAppTransitionFunction\<close>: round class to (event to round class).\<close>

type_synonym AbciAppTransitionFunction = "(RoundType \<times> (Event \<times> RoundType) list) list"

definition initial_round_cls :: RoundType where
  "initial_round_cls = RegistrationRound"

definition transition_function :: AbciAppTransitionFunction where
  "transition_function =
    [(RegistrationRound,
        [(DONE, RandomnessStartupRound),
         (FAST_FORWARD, RandomnessRound)]),
     (RandomnessStartupRound,
        [(DONE, SelectKeeperAStartupRound),
         (ROUND_TIMEOUT, RandomnessStartupRound),
         (NO_MAJORITY, RandomnessStartupRound)]),
     (SelectKeeperAStartupRound,
        [(DONE, DeploySafeRound),
         (ROUND_TIMEOUT, RegistrationRound),
         (NO_MAJORITY, RegistrationRound)]),
     (DeploySafeRound,
        [(DONE, ValidateSafeRound),
         (DEPLOY_TIMEOUT, SelectKeeperAStartupRound)]),
     (ValidateSafeRound,
        [(DONE, DeployOracleRound),
         (NEGATIVE, RegistrationRound),
         (NONE, RegistrationRound),
         (VALIDATE_TIMEOUT, RegistrationRound),
         (NO_MAJORITY, RegistrationRound)]),
     (DeployOracleRound,
        [(DONE, ValidateOracleRound),
         (DEPLOY_TIMEOUT, SelectKeeperBStartupRound)]),
     (SelectKeeperBStartupRound,
        [(DONE, DeployOracleRound),
         (ROUND_TIMEOUT, RegistrationRound),
         (NO_MAJORITY, RegistrationRound)]),
     (ValidateOracleRound,
        [(DONE, RandomnessRound),
         (NEGATIVE, RegistrationRound),
         (NONE, RegistrationRound),
         (VALIDATE_TIMEOUT, RegistrationRound),
         (NO_MAJORITY, RegistrationRound)]),
     (RandomnessRound,
        [(DONE, SelectKeeperARound),
         (ROUND_TIMEOUT, ResetRound),
         (NO_MAJORITY, RandomnessRound)]),
     (SelectKeeperARound,
        [(DONE, CollectObservationRound),
         (ROUND_TIMEOUT, ResetRound),
         (NO_MAJORITY, ResetRound)]),
     (CollectObservationRound,
        [(DONE, TransformRound),
         (ROUND_TIMEOUT, ResetRound)]),
     (TransformRound,
        [(DONE, EstimateConsensusRound),
         (ROUND_TIMEOUT, ResetRound)]),
     (EstimateConsensusRound,
        [(DONE, TxHashRound),
         (ROUND_TIMEOUT, ResetRound),
         (NO_MAJORITY, ResetRound)]),
     (TxHashRound,
        [(DONE, CollectSignatureRound),
         (ROUND_TIMEOUT, ResetRound),
         (NO_MAJORITY, ResetRound)]),
     (CollectSignatureRound,
        [(DONE, FinalizationRound),
         (ROUND_TIMEOUT, ResetRound),
         (NO_MAJORITY, ResetRound)]),
     (FinalizationRound,
        [(DONE, ValidateTransactionRound),
         (ROUND_TIMEOUT, SelectKeeperBRound),
         (FAILED, SelectKeeperBRound)]),
     (ValidateTransactionRound,
        [(DONE, ResetAndPauseRound),
         (NEGATIVE, ResetRound),
         (NONE, ResetRound),
         (VALIDATE_TIMEOUT, ResetRound),
         (NO_MAJORITY, ValidateTransactionRound)]),
     (SelectKeeperBRound,
        [(DONE, FinalizationRound),
         (ROUND_TIMEOUT, ResetRound),
         (NO_MAJORITY, ResetRound)]),
     (ResetRound,
        [(DONE, RandomnessRound),
         (ROUND_TIMEOUT, RegistrationRound),
         (NO_MAJORITY, RegistrationRound)]),
     (ResetAndPauseRound,
        [(DONE, RandomnessRound),
         (RESET_TIMEOUT, RegistrationRound),
         (NO_MAJORITY, RegistrationRound)])]"

text \<open>\<^verbatim>\<open>event_to_timeout\<close>: the timeout-triggered events and their durations in seconds.\<close>

definition event_to_timeout :: "(Event \<times> real) list" where
  "event_to_timeout =
    [(ROUND_TIMEOUT, 30),
     (VALIDATE_TIMEOUT, 30),
     (DEPLOY_TIMEOUT, 30),
     (RESET_TIMEOUT, 30)]"

text \<open>The keys of the table, and the keys of \<^verbatim>\<open>event_to_timeout\<close>.\<close>

definition round_types :: "RoundType list" where
  "round_types = map fst transition_function"

definition timeout_events :: "Event list" where
  "timeout_events = map fst event_to_timeout"

text \<open>
  \<^verbatim>\<open>transition_function[r]\<close> as a list of items (empty for a class that is not a key),
  and the lookup \<^verbatim>\<open>transition_function[r].get(e)\<close>.
\<close>

definition transitions_of :: "RoundType \<Rightarrow> (Event \<times> RoundType) list" where
  "transitions_of r = (case map_of transition_function r of None \<Rightarrow> [] | Some es \<Rightarrow> es)"

definition next_round :: "RoundType \<Rightarrow> Event \<Rightarrow> RoundType option" where
  "next_round r e = map_of (transitions_of r) e"

definition successors :: "RoundType \<Rightarrow> RoundType list" where
  "successors r = map snd (transitions_of r)"

text \<open>The entries of a round that are keyed by a timeout-triggered event.\<close>

definition timeout_exits :: "RoundType \<Rightarrow> (Event \<times> RoundType) list" where
  "timeout_exits r = filter (\<lambda>(e, t). e \<in> set timeout_events) (transitions_of r)"

text \<open>Reachability by table transitions: zero or more lookups that succeed.\<close>

inductive reachable :: "RoundType \<Rightarrow> RoundType \<Rightarrow> bool" where
  reachable_refl: "reachable r r"
| reachable_step: "reachable r s \<Longrightarrow> next_round s e = Some t \<Longrightarrow> reachable r t"

subsection \<open>A scenario: participants A, B, C and D, payloads from A, B and C\<close>

text \<open>
  The period state at the start of the round, the store in which the round's collection
  (the object at reference 0) holds the payloads of A, B and C in the order of their
  arrival, and the round instance.
\<close>

definition abcd_state :: "'d PeriodState" where
  "abcd_state =
     \<lparr>participants = Some {''A'', ''B'', ''C'', ''D''}, period_count = Some 0,
      period_setup_params = None,
      participant_to_randomness = None, most_voted_randomness = Some ''0xd1ce'',
      participant_to_selection = None, most_voted_keeper_address = Some ''A'',
      safe_contract_address = Some ''0x5afe'', oracle_contract_address = None,
      participant_to_votes = None, participant_to_observations = None,
      participant_to_transformation = None, participant_to_estimate = None,
      transformation = None, estimate = None, most_voted_estimate = None,
      participant_to_tx_hash = None, most_voted_tx_hash = None,
      participant_to_signature = None, final_tx_hash = None\<rparr>"

definition abc_store :: "'o \<Rightarrow> 'o \<Rightarrow> 'o \<Rightarrow> 'o store" where
  "abc_store oa ob oc =
     (\<lambda>a. [])(0 :=
       [(''A'', \<lparr>sender = ''A'', observation = oa\<rparr>),
        (''B'', \<lparr>sender = ''B'', observation = ob\<rparr>),
        (''C'', \<lparr>sender = ''C'', observation = oc\<rparr>)])"

definition abcd_round :: "'d AbstractRound" where
  "abcd_round = \<lparr>state = abcd_state, collection = 0\<rparr>"

section \<open>Properties\<close>

subsection \<open>Dictionaries\<close>

lemma dict_len_card_keys: "wf_dict d \<Longrightarrow> dict_len d = card (dict_keys d)"
  unfolding wf_dict_def dict_len_def dict_keys_def
  using distinct_card [of "map fst d"] by simp

lemma map_fst_setitem:
  "map fst (setitem d k v) = (if k \<in> fst ` set d then map fst d else map fst d @ [k])"
proof (induction d)
  case Nil
  show ?case by simp
next
  case (Cons p d)
  obtain k' v' where p: "p = (k', v')" by (cases p)
  show ?case
  proof (cases "k' = k")
    case True
    then show ?thesis by (simp add: p)
  next
    case False
    with Cons.IH show ?thesis by (simp add: p)
  qed
qed

lemma dict_keys_setitem: "dict_keys (setitem d k v) = insert k (dict_keys d)"
  by (auto simp: dict_keys_def map_fst_setitem)

lemma wf_dict_setitem: "wf_dict d \<Longrightarrow> wf_dict (setitem d k v)"
  by (simp add: wf_dict_def map_fst_setitem)

lemma abc_store_wf: "wf_dict (abc_store oa ob oc 0)"
  by (simp add: abc_store_def wf_dict_def)

subsection \<open>The rounds\<close>

text \<open>
  C1: \<^verbatim>\<open>CollectObservationRound.end_block\<close> returns \<^verbatim>\<open>None\<close> whenever the number of collected
  payloads is below the configured threshold: a collection below the threshold never
  produces an output. Once the threshold is reached it returns the event \<^verbatim>\<open>DONE\<close> together
  with a new period state, the prior state updated with the view of the collection and the
  transform of the collected observations. For a collection with one payload per sender,
  it returns \<^verbatim>\<open>None\<close> exactly when the number of distinct senders is below the threshold.
\<close>

theorem end_block_quorum:
  "(dict_len (h (collection self)) < consensus_threshold \<longrightarrow>
      CollectObservationRound_end_block consensus_threshold transform h self = Inr None)
   \<and> (consensus_threshold \<le> dict_len (h (collection self)) \<longrightarrow>
      (\<exists>s. CollectObservationRound_end_block consensus_threshold transform h self
              = Inr (Some (s, DONE))
         \<and> s = update (period_state self) (MappingProxyType (collection self))
                 (transform (map observation (dict_values (h (collection self)))))
         \<and> participant_to_observations s = Some (MappingProxyType (collection self))
         \<and> transformation s
             = Some (transform (map observation (dict_values (h (collection self)))))))
   \<and> (wf_dict (h (collection self)) \<longrightarrow>
      (CollectObservationRound_end_block consensus_threshold transform h self = Inr None)
        = (card (dict_keys (h (collection self))) < consensus_threshold))"
proof -
  let ?d = "h (collection self)"
  have run: "CollectObservationRound_end_block consensus_threshold transform h self
      = (if consensus_threshold \<le> dict_len ?d
         then Inr (Some (update (period_state self) (MappingProxyType (collection self))
                (transform (map observation (dict_values ?d))), DONE))
         else Inr None)"
    by (simp add: CollectObservationRound_end_block_def collection_threshold_reached_def
        Let_def)
  have below: "dict_len ?d < consensus_threshold \<longrightarrow>
      CollectObservationRound_end_block consensus_threshold transform h self = Inr None"
    by (simp add: run)
  have reached: "consensus_threshold \<le> dict_len ?d \<longrightarrow>
      (\<exists>s. CollectObservationRound_end_block consensus_threshold transform h self
              = Inr (Some (s, DONE))
         \<and> s = update (period_state self) (MappingProxyType (collection self))
                 (transform (map observation (dict_values ?d)))
         \<and> participant_to_observations s = Some (MappingProxyType (collection self))
         \<and> transformation s = Some (transform (map observation (dict_values ?d))))"
    by (simp add: run update_def)
  have senders: "wf_dict ?d \<longrightarrow>
      (CollectObservationRound_end_block consensus_threshold transform h self = Inr None)
        = (card (dict_keys ?d) < consensus_threshold)"
    by (auto simp: run dict_len_card_keys)
  from below reached senders show ?thesis by blast
qed

theorem end_block_quorum_witness:
  "dict_len (abc_store (1::int) 2 3 (collection (abcd_round :: int AbstractRound))) < 4
   \<and> CollectObservationRound_end_block 4 sum_list (abc_store (1::int) 2 3)
        (abcd_round :: int AbstractRound) = Inr None
   \<and> 3 \<le> dict_len (abc_store (1::int) 2 3 (collection (abcd_round :: int AbstractRound)))
   \<and> (\<exists>s. CollectObservationRound_end_block 3 sum_list (abc_store (1::int) 2 3)
        (abcd_round :: int AbstractRound) = Inr (Some (s, DONE))
        \<and> participant_to_observations s = Some (MappingProxyType 0)
        \<and> transformation s = Some 6
        \<and> s \<noteq> period_state (abcd_round :: int AbstractRound))
   \<and> wf_dict (abc_store (1::int) 2 3 (collection (abcd_round :: int AbstractRound)))
   \<and> card (dict_keys (abc_store (1::int) 2 3 (collection (abcd_round :: int AbstractRound)))) = 3"
proof -
  let ?h = "abc_store (1::int) 2 3"
  let ?r = "abcd_round :: int AbstractRound"
  have len: "dict_len (?h (collection ?r)) = 3"
    by (simp add: abc_store_def abcd_round_def dict_len_def)
  have wf: "wf_dict (?h (collection ?r))"
    by (simp add: abcd_round_def abc_store_wf)
  have c: "collection ?r = 0"
    and t: "sum_list (map observation (dict_values (?h 0))) = 6"
    and prior: "participant_to_observations (period_state ?r) = None"
    by (simp_all add: abcd_round_def abc_store_def dict_values_def period_state_def
        abcd_state_def)
  from end_block_quorum [of ?h ?r 4 sum_list] len
  have below: "CollectObservationRound_end_block 4 sum_list ?h ?r = Inr None"
    by simp
  from end_block_quorum [of ?h ?r 3 sum_list] len
  obtain s where run: "CollectObservationRound_end_block 3 sum_list ?h ?r = Inr (Some (s, DONE))"
    and view: "participant_to_observations s = Some (MappingProxyType (collection ?r))"
    and tr: "transformation s
        = Some (sum_list (map observation (dict_values (?h (collection ?r)))))"
    by auto
  from view have view0: "participant_to_observations s = Some (MappingProxyType 0)"
    by (simp add: c)
  from tr have tr6: "transformation s = Some 6"
    by (simp add: c t)
  from view prior have new: "s \<noteq> period_state ?r"
    by auto
  from dict_len_card_keys [OF wf] len
  have card: "card (dict_keys (?h (collection ?r))) = 3"
    by simp
  from len have lt: "dict_len (?h (collection ?r)) < 4" and ge: "3 \<le> dict_len (?h (collection ?r))"
    by simp_all
  from lt below ge run view0 tr6 new wf card show ?thesis
    by blast
qed

text \<open>
  C3: when \<^verbatim>\<open>CollectObservationRound.end_block\<close> reaches quorum, the new period state has
  every field of the prior period state unchanged, and the round's two declared outputs:
  \<^verbatim>\<open>participant_to_observations\<close>, the view of the round's collection, and
  \<^verbatim>\<open>transformation\<close>, the transform of the collected observations in the order of the
  collection. No field of the prior state is lost.
\<close>

theorem end_block_frame:
  assumes "CollectObservationRound_end_block consensus_threshold transform h self
             = Inr (Some (s', e))"
  shows "participants s' = participants (period_state self)
    \<and> period_count s' = period_count (period_state self)
    \<and> period_setup_params s' = period_setup_params (period_state self)
    \<and> participant_to_randomness s' = participant_to_randomness (period_state self)
    \<and> most_voted_randomness s' = most_voted_randomness (period_state self)
    \<and> participant_to_selection s' = participant_to_selection (period_state self)
    \<and> most_voted_keeper_address s' = most_voted_keeper_address (period_state self)
    \<and> safe_contract_address s' = safe_contract_address (period_state self)
    \<and> oracle_contract_address s' = oracle_contract_address (period_state self)
    \<and> participant_to_votes s' = participant_to_votes (period_state self)
    \<and> participant_to_transformation s' = participant_to_transformation (period_state self)
    \<and> participant_to_estimate s' = participant_to_estimate (period_state self)
    \<and> estimate s' = estimate (period_state self)
    \<and> most_voted_estimate s' = most_voted_estimate (period_state self)
    \<and> participant_to_tx_hash s' = participant_to_tx_hash (period_state self)
    \<and> most_voted_tx_hash s' = most_voted_tx_hash (period_state self)
    \<and> participant_to_signature s' = participant_to_signature (period_state self)
    \<and> final_tx_hash s' = final_tx_hash (period_state self)
    \<and> participant_to_observations s' = Some (MappingProxyType (collection self))
    \<and> proxy_items h (MappingProxyType (collection self)) = h (collection self)
    \<and> transformation s'
        = Some (transform (map observation (dict_values (h (collection self)))))"
proof -
  from assms have s': "s' = update (period_state self) (MappingProxyType (collection self))
      (transform (map observation (dict_values (h (collection self)))))"
    by (simp add: CollectObservationRound_end_block_def Let_def split: if_splits)
  show ?thesis unfolding s' update_def by simp
qed

theorem end_block_frame_witness:
  "\<exists>s'. CollectObservationRound_end_block 3 sum_list (abc_store (1::int) 2 3)
            (abcd_round :: int AbstractRound) = Inr (Some (s', DONE))
     \<and> participants s' = Some {''A'', ''B'', ''C'', ''D''}
     \<and> period_count s' = Some 0
     \<and> most_voted_randomness s' = Some ''0xd1ce''
     \<and> most_voted_keeper_address s' = Some ''A''
     \<and> safe_contract_address s' = Some ''0x5afe''
     \<and> final_tx_hash s' = None
     \<and> participant_to_observations s' = Some (MappingProxyType 0)
     \<and> transformation s' = Some 6"
proof -
  let ?h = "abc_store (1::int) 2 3"
  let ?r = "abcd_round :: int AbstractRound"
  let ?s = "update (period_state ?r) (MappingProxyType (collection ?r))
      (sum_list (map observation (dict_values (?h (collection ?r)))))"
  have run: "CollectObservationRound_end_block 3 sum_list ?h ?r = Inr (Some (?s, DONE))"
    by (simp add: CollectObservationRound_end_block_def collection_threshold_reached_def
        Let_def abc_store_def abcd_round_def dict_len_def)
  have vals: "period_state ?r = abcd_state" "collection ?r = 0"
    "sum_list (map observation (dict_values (?h 0))) = 6"
    by (simp_all add: period_state_def abcd_round_def abc_store_def dict_values_def)
  from end_block_frame [OF run] show ?thesis
    unfolding vals by (intro exI [of _ ?s]) (simp add: run vals abcd_state_def)
qed

text \<open>
  C7: participants A, B, C and D, threshold 3, and a collection holding the payloads of
  exactly A, B and C, whatever they observed: \<^verbatim>\<open>end_block\<close> returns the event \<^verbatim>\<open>DONE\<close>
  and a new period state whose stored collection has exactly 3 entries, those of A, B and
  C, and no entry for D.
\<close>

theorem end_block_scenario:
  "\<exists>s' p. CollectObservationRound_end_block 3 transform (abc_store oa ob oc) abcd_round
             = Inr (Some (s', DONE))
     \<and> participants s' = Some {''A'', ''B'', ''C'', ''D''}
     \<and> participant_to_observations s' = Some p
     \<and> dict_len (proxy_items (abc_store oa ob oc) p) = 3
     \<and> dict_keys (proxy_items (abc_store oa ob oc) p) = {''A'', ''B'', ''C''}
     \<and> dict_get (proxy_items (abc_store oa ob oc) p) ''D'' = None"
proof -
  let ?h = "abc_store oa ob oc"
  let ?s = "update abcd_state (MappingProxyType 0)
      (transform (map observation (dict_values (?h 0))))"
  have "CollectObservationRound_end_block 3 transform ?h abcd_round = Inr (Some (?s, DONE))"
    by (simp add: CollectObservationRound_end_block_def collection_threshold_reached_def
        Let_def abc_store_def abcd_round_def dict_len_def period_state_def)
  moreover have "participant_to_observations ?s = Some (MappingProxyType 0)"
    and "participants ?s = Some {''A'', ''B'', ''C'', ''D''}"
    by (simp_all add: update_def abcd_state_def)
  moreover have "dict_len (proxy_items ?h (MappingProxyType 0)) = 3"
    and "dict_keys (proxy_items ?h (MappingProxyType 0)) = {''A'', ''B'', ''C''}"
    and "dict_get (proxy_items ?h (MappingProxyType 0)) ''D'' = None"
    by (simp_all add: abc_store_def dict_len_def dict_keys_def dict_get_def)
  ultimately show ?thesis by blast
qed

text \<open>
  C9: \<^verbatim>\<open>TransformRound.end_block\<close> is an unimplemented placeholder: for every store (every
  collection) and every round instance (every period state) it raises
  \<^verbatim>\<open>NotImplementedError\<close>; it returns neither a pair of a period state and an event nor
  \<^verbatim>\<open>None\<close>.
\<close>

theorem TransformRound_end_block_raises:
  "TransformRound_end_block h self = Inl NotImplementedError
   \<and> TransformRound_end_block h self \<noteq> Inr None
   \<and> TransformRound_end_block h self \<noteq> Inr (Some (s, e))"
  by (simp add: TransformRound_end_block_def)

subsection \<open>The stored view of the collection\<close>



subsection \<open>The transition table\<close>

lemma round_types_eq:
  "round_types =
    [RegistrationRound, RandomnessStartupRound, SelectKeeperAStartupRound, DeploySafeRound,
     ValidateSafeRound, DeployOracleRound, SelectKeeperBStartupRound, ValidateOracleRound,
     RandomnessRound, SelectKeeperARound, CollectObservationRound, TransformRound,
     EstimateConsensusRound, TxHashRound, CollectSignatureRound, FinalizationRound,
     ValidateTransactionRound, SelectKeeperBRound, ResetRound, ResetAndPauseRound]"
  by (simp add: round_types_def transition_function_def)

lemma timeout_events_eq:
  "timeout_events = [ROUND_TIMEOUT, VALIDATE_TIMEOUT, DEPLOY_TIMEOUT, RESET_TIMEOUT]"
  by (simp add: timeout_events_def event_to_timeout_def)

lemma transitions_of_simps:
  "transitions_of RegistrationRound = [(DONE, RandomnessStartupRound), (FAST_FORWARD, RandomnessRound)]"
  "transitions_of RandomnessStartupRound = [(DONE, SelectKeeperAStartupRound), (ROUND_TIMEOUT, RandomnessStartupRound), (NO_MAJORITY, RandomnessStartupRound)]"
  "transitions_of SelectKeeperAStartupRound = [(DONE, DeploySafeRound), (ROUND_TIMEOUT, RegistrationRound), (NO_MAJORITY, RegistrationRound)]"
  "transitions_of DeploySafeRound = [(DONE, ValidateSafeRound), (DEPLOY_TIMEOUT, SelectKeeperAStartupRound)]"
  "transitions_of ValidateSafeRound = [(DONE, DeployOracleRound), (NEGATIVE, RegistrationRound), (NONE, RegistrationRound), (VALIDATE_TIMEOUT, RegistrationRound), (NO_MAJORITY, RegistrationRound)]"
  "transitions_of DeployOracleRound = [(DONE, ValidateOracleRound), (DEPLOY_TIMEOUT, SelectKeeperBStartupRound)]"
  "transitions_of SelectKeeperBStartupRound = [(DONE, DeployOracleRound), (ROUND_TIMEOUT, RegistrationRound), (NO_MAJORITY, RegistrationRound)]"
  "transitions_of ValidateOracleRound = [(DONE, RandomnessRound), (NEGATIVE, RegistrationRound), (NONE, RegistrationRound), (VALIDATE_TIMEOUT, RegistrationRound), (NO_MAJORITY, RegistrationRound)]"
  "transitions_of RandomnessRound = [(DONE, SelectKeeperARound), (ROUND_TIMEOUT, ResetRound), (NO_MAJORITY, RandomnessRound)]"
  "transitions_of SelectKeeperARound = [(DONE, CollectObservationRound), (ROUND_TIMEOUT, ResetRound), (NO_MAJORITY, ResetRound)]"
  "transitions_of CollectObservationRound = [(DONE, TransformRound), (ROUND_TIMEOUT, ResetRound)]"
  "transitions_of TransformRound = [(DONE, EstimateConsensusRound), (ROUND_TIMEOUT, ResetRound)]"
  "transitions_of EstimateConsensusRound = [(DONE, TxHashRound), (ROUND_TIMEOUT, ResetRound), (NO_MAJORITY, ResetRound)]"
  "transitions_of TxHashRound = [(DONE, CollectSignatureRound), (ROUND_TIMEOUT, ResetRound), (NO_MAJORITY, ResetRound)]"
  "transitions_of CollectSignatureRound = [(DONE, FinalizationRound), (ROUND_TIMEOUT, ResetRound), (NO_MAJORITY, ResetRound)]"
  "transitions_of FinalizationRound = [(DONE, ValidateTransactionRound), (ROUND_TIMEOUT, SelectKeeperBRound), (FAILED, SelectKeeperBRound)]"
  "transitions_of ValidateTransactionRound = [(DONE, ResetAndPauseRound), (NEGATIVE, ResetRound), (NONE, ResetRound), (VALIDATE_TIMEOUT, ResetRound), (NO_MAJORITY, ValidateTransactionRound)]"
  "transitions_of SelectKeeperBRound = [(DONE, FinalizationRound), (ROUND_TIMEOUT, ResetRound), (NO_MAJORITY, ResetRound)]"
  "transitions_of ResetRound = [(DONE, RandomnessRound), (ROUND_TIMEOUT, RegistrationRound), (NO_MAJORITY, RegistrationRound)]"
  "transitions_of ResetAndPauseRound = [(DONE, RandomnessRound), (RESET_TIMEOUT, RegistrationRound), (NO_MAJORITY, RegistrationRound)]"
  by (simp_all add: transitions_of_def transition_function_def)

lemma table_keys_distinct:
  "distinct round_types \<and> (\<forall>r \<in> set round_types. distinct (map fst (transitions_of r)))"
  by (simp add: round_types_eq transitions_of_simps)




lemma reachable_trans:
  assumes "reachable s t" and "reachable r s"
  shows "reachable r t"
  using assms
proof (induction rule: reachable.induct)
  case (reachable_refl u)
  then show ?case .
next
  case (reachable_step u v e w)
  then show ?case by (blast intro: reachable.reachable_step)
qed

lemma reachable_first: "next_round r e = Some s \<Longrightarrow> reachable s t \<Longrightarrow> reachable r t"
  by (rule reachable_trans [of s t r]) (auto intro: reachable.intros)

lemma reachable_from_initial:
  "reachable RegistrationRound RegistrationRound"
  "reachable RegistrationRound RandomnessStartupRound"
  "reachable RegistrationRound SelectKeeperAStartupRound"
  "reachable RegistrationRound DeploySafeRound"
  "reachable RegistrationRound ValidateSafeRound"
  "reachable RegistrationRound DeployOracleRound"
  "reachable RegistrationRound SelectKeeperBStartupRound"
  "reachable RegistrationRound ValidateOracleRound"
  "reachable RegistrationRound RandomnessRound"
  "reachable RegistrationRound SelectKeeperARound"
  "reachable RegistrationRound CollectObservationRound"
  "reachable RegistrationRound TransformRound"
  "reachable RegistrationRound EstimateConsensusRound"
  "reachable RegistrationRound TxHashRound"
  "reachable RegistrationRound CollectSignatureRound"
  "reachable RegistrationRound FinalizationRound"
  "reachable RegistrationRound ValidateTransactionRound"
  "reachable RegistrationRound SelectKeeperBRound"
  "reachable RegistrationRound ResetRound"
  "reachable RegistrationRound ResetAndPauseRound"
proof -
  note nr = next_round_def transitions_of_simps
  show r0: "reachable RegistrationRound RegistrationRound"
    by (rule reachable_refl)
  show r1: "reachable RegistrationRound RandomnessStartupRound"
    by (rule reachable_step [OF r0, where e = DONE]) (simp add: nr)
  show r2: "reachable RegistrationRound SelectKeeperAStartupRound"
    by (rule reachable_step [OF r1, where e = DONE]) (simp add: nr)
  show r3: "reachable RegistrationRound DeploySafeRound"
    by (rule reachable_step [OF r2, where e = DONE]) (simp add: nr)
  show r4: "reachable RegistrationRound ValidateSafeRound"
    by (rule reachable_step [OF r3, where e = DONE]) (simp add: nr)
  show r5: "reachable RegistrationRound DeployOracleRound"
    by (rule reachable_step [OF r4, where e = DONE]) (simp add: nr)
  show r6: "reachable RegistrationRound SelectKeeperBStartupRound"
    by (rule reachable_step [OF r5, where e = DEPLOY_TIMEOUT]) (simp add: nr)
  show r7: "reachable RegistrationRound ValidateOracleRound"
    by (rule reachable_step [OF r5, where e = DONE]) (simp add: nr)
  show r8: "reachable RegistrationRound RandomnessRound"
    by (rule reachable_step [OF r0, where e = FAST_FORWARD]) (simp add: nr)
  show r9: "reachable RegistrationRound SelectKeeperARound"
    by (rule reachable_step [OF r8, where e = DONE]) (simp add: nr)
  show r10: "reachable RegistrationRound CollectObservationRound"
    by (rule reachable_step [OF r9, where e = DONE]) (simp add: nr)
  show r11: "reachable RegistrationRound TransformRound"
    by (rule reachable_step [OF r10, where e = DONE]) (simp add: nr)
  show r12: "reachable RegistrationRound EstimateConsensusRound"
    by (rule reachable_step [OF r11, where e = DONE]) (simp add: nr)
  show r13: "reachable RegistrationRound TxHashRound"
    by (rule reachable_step [OF r12, where e = DONE]) (simp add: nr)
  show r14: "reachable RegistrationRound CollectSignatureRound"
    by (rule reachable_step [OF r13, where e = DONE]) (simp add: nr)
  show r15: "reachable RegistrationRound FinalizationRound"
    by (rule reachable_step [OF r14, where e = DONE]) (simp add: nr)
  show r16: "reachable RegistrationRound ValidateTransactionRound"
    by (rule reachable_step [OF r15, where e = DONE]) (simp add: nr)
  show r17: "reachable RegistrationRound SelectKeeperBRound"
    by (rule reachable_step [OF r15, where e = ROUND_TIMEOUT]) (simp add: nr)
  show r18: "reachable RegistrationRound ResetRound"
    by (rule reachable_step [OF r8, where e = ROUND_TIMEOUT]) (simp add: nr)
  show r19: "reachable RegistrationRound ResetAndPauseRound"
    by (rule reachable_step [OF r16, where e = DONE]) (simp add: nr)
qed

lemma reachable_to_initial:
  "reachable RegistrationRound RegistrationRound"
  "reachable RandomnessStartupRound RegistrationRound"
  "reachable SelectKeeperAStartupRound RegistrationRound"
  "reachable DeploySafeRound RegistrationRound"
  "reachable ValidateSafeRound RegistrationRound"
  "reachable DeployOracleRound RegistrationRound"
  "reachable SelectKeeperBStartupRound RegistrationRound"
  "reachable ValidateOracleRound RegistrationRound"
  "reachable RandomnessRound RegistrationRound"
  "reachable SelectKeeperARound RegistrationRound"
  "reachable CollectObservationRound RegistrationRound"
  "reachable TransformRound RegistrationRound"
  "reachable EstimateConsensusRound RegistrationRound"
  "reachable TxHashRound RegistrationRound"
  "reachable CollectSignatureRound RegistrationRound"
  "reachable FinalizationRound RegistrationRound"
  "reachable ValidateTransactionRound RegistrationRound"
  "reachable SelectKeeperBRound RegistrationRound"
  "reachable ResetRound RegistrationRound"
  "reachable ResetAndPauseRound RegistrationRound"
proof -
  note nr = next_round_def transitions_of_simps
  show b0: "reachable RegistrationRound RegistrationRound"
    by (rule reachable_refl)
  show b2: "reachable SelectKeeperAStartupRound RegistrationRound"
    by (rule reachable_first [OF _ b0, where e = ROUND_TIMEOUT]) (simp add: nr)
  show b1: "reachable RandomnessStartupRound RegistrationRound"
    by (rule reachable_first [OF _ b2, where e = DONE]) (simp add: nr)
  show b3: "reachable DeploySafeRound RegistrationRound"
    by (rule reachable_first [OF _ b2, where e = DEPLOY_TIMEOUT]) (simp add: nr)
  show b4: "reachable ValidateSafeRound RegistrationRound"
    by (rule reachable_first [OF _ b0, where e = VALIDATE_TIMEOUT]) (simp add: nr)
  show b6: "reachable SelectKeeperBStartupRound RegistrationRound"
    by (rule reachable_first [OF _ b0, where e = ROUND_TIMEOUT]) (simp add: nr)
  show b5: "reachable DeployOracleRound RegistrationRound"
    by (rule reachable_first [OF _ b6, where e = DEPLOY_TIMEOUT]) (simp add: nr)
  show b7: "reachable ValidateOracleRound RegistrationRound"
    by (rule reachable_first [OF _ b0, where e = VALIDATE_TIMEOUT]) (simp add: nr)
  show b18: "reachable ResetRound RegistrationRound"
    by (rule reachable_first [OF _ b0, where e = ROUND_TIMEOUT]) (simp add: nr)
  show b19: "reachable ResetAndPauseRound RegistrationRound"
    by (rule reachable_first [OF _ b0, where e = RESET_TIMEOUT]) (simp add: nr)
  show b8: "reachable RandomnessRound RegistrationRound"
    by (rule reachable_first [OF _ b18, where e = ROUND_TIMEOUT]) (simp add: nr)
  show b9: "reachable SelectKeeperARound RegistrationRound"
    by (rule reachable_first [OF _ b18, where e = ROUND_TIMEOUT]) (simp add: nr)
  show b10: "reachable CollectObservationRound RegistrationRound"
    by (rule reachable_first [OF _ b18, where e = ROUND_TIMEOUT]) (simp add: nr)
  show b11: "reachable TransformRound RegistrationRound"
    by (rule reachable_first [OF _ b18, where e = ROUND_TIMEOUT]) (simp add: nr)
  show b12: "reachable EstimateConsensusRound RegistrationRound"
    by (rule reachable_first [OF _ b18, where e = ROUND_TIMEOUT]) (simp add: nr)
  show b13: "reachable TxHashRound RegistrationRound"
    by (rule reachable_first [OF _ b18, where e = ROUND_TIMEOUT]) (simp add: nr)
  show b14: "reachable CollectSignatureRound RegistrationRound"
    by (rule reachable_first [OF _ b18, where e = ROUND_TIMEOUT]) (simp add: nr)
  show b17: "reachable SelectKeeperBRound RegistrationRound"
    by (rule reachable_first [OF _ b18, where e = ROUND_TIMEOUT]) (simp add: nr)
  show b15: "reachable FinalizationRound RegistrationRound"
    by (rule reachable_first [OF _ b17, where e = ROUND_TIMEOUT]) (simp add: nr)
  show b16: "reachable ValidateTransactionRound RegistrationRound"
    by (rule reachable_first [OF _ b18, where e = VALIDATE_TIMEOUT]) (simp add: nr)
qed

text \<open>
  C6: the transition table is closed and cyclic, with no terminal round. The initial round
  \<^verbatim>\<open>RegistrationRound\<close> is a key of the table; every round that is the target of a
  transition is a key of the table; every round of the table has a transition; every
  round of the table is reachable from the initial round by table transitions, and the
  initial round is reachable from every round of the table.
\<close>

theorem table_closed_cyclic:
  "initial_round_cls \<in> set round_types
   \<and> (\<forall>r \<in> set round_types. \<forall>t \<in> set (successors r). t \<in> set round_types)
   \<and> (\<forall>r \<in> set round_types. successors r \<noteq> [])
   \<and> (\<forall>r \<in> set round_types. reachable initial_round_cls r)
   \<and> (\<forall>r \<in> set round_types. reachable r initial_round_cls)"
proof (intro conjI)
  show "initial_round_cls \<in> set round_types"
    by (simp add: initial_round_cls_def round_types_eq)
  show "\<forall>r \<in> set round_types. \<forall>t \<in> set (successors r). t \<in> set round_types"
    by (simp add: round_types_eq successors_def transitions_of_simps)
  show "\<forall>r \<in> set round_types. successors r \<noteq> []"
    by (simp add: round_types_eq successors_def transitions_of_simps)
  show "\<forall>r \<in> set round_types. reachable initial_round_cls r"
    by (simp add: round_types_eq initial_round_cls_def reachable_from_initial)
  show "\<forall>r \<in> set round_types. reachable r initial_round_cls"
    by (simp add: round_types_eq initial_round_cls_def reachable_to_initial)
qed

theorem table_closed_cyclic_witness:
  "ResetAndPauseRound \<in> set round_types
   \<and> RegistrationRound \<in> set (successors ResetAndPauseRound)
   \<and> RegistrationRound \<in> set round_types
   \<and> successors ResetAndPauseRound \<noteq> []
   \<and> reachable RegistrationRound ResetAndPauseRound
   \<and> reachable ResetAndPauseRound RegistrationRound"
proof -
  have k: "ResetAndPauseRound \<in> set round_types"
    by (simp add: round_types_eq)
  have s: "RegistrationRound \<in> set (successors ResetAndPauseRound)"
    by (simp add: successors_def transitions_of_simps)
  from table_closed_cyclic k s show ?thesis
    unfolding initial_round_cls_def by blast
qed

text \<open>
  \<^verbatim>\<open>RegistrationRound\<close> is a key of the table, and its entry has the events \<^verbatim>\<open>DONE\<close> and
  \<^verbatim>\<open>FAST_FORWARD\<close> only: none of the four timeout-triggered events has a next round there.
\<close>

theorem registration_has_no_timeout_exit:
  "RegistrationRound \<in> set round_types
   \<and> timeout_exits RegistrationRound = []
   \<and> next_round RegistrationRound ROUND_TIMEOUT = None
   \<and> next_round RegistrationRound VALIDATE_TIMEOUT = None
   \<and> next_round RegistrationRound DEPLOY_TIMEOUT = None
   \<and> next_round RegistrationRound RESET_TIMEOUT = None"
  by (simp add: round_types_eq timeout_exits_def next_round_def transitions_of_simps
      timeout_events_eq)

text \<open>
  C5, as amended: for every round type that is a key of the transition table, except
  \<^verbatim>\<open>RegistrationRound\<close>, the entry of that round has at least one timeout-triggered event
  (\<^verbatim>\<open>ROUND_TIMEOUT\<close>, \<^verbatim>\<open>VALIDATE_TIMEOUT\<close>, \<^verbatim>\<open>DEPLOY_TIMEOUT\<close> or \<^verbatim>\<open>RESET_TIMEOUT\<close>, the keys
  of \<^verbatim>\<open>event_to_timeout\<close>) that maps to a round of the table. The entry of
  \<^verbatim>\<open>RegistrationRound\<close> is \<^verbatim>\<open>DONE\<close> and \<^verbatim>\<open>FAST_FORWARD\<close>.
\<close>

theorem timeout_exit_except_registration:
  "(\<forall>r \<in> set round_types. r \<noteq> RegistrationRound \<longrightarrow>
      (\<exists>e \<in> set timeout_events. \<exists>t \<in> set round_types. next_round r e = Some t))
   \<and> transitions_of RegistrationRound
       = [(DONE, RandomnessStartupRound), (FAST_FORWARD, RandomnessRound)]
   \<and> set timeout_events = {ROUND_TIMEOUT, VALIDATE_TIMEOUT, DEPLOY_TIMEOUT, RESET_TIMEOUT}"
  by (simp add: round_types_eq next_round_def transitions_of_simps timeout_events_eq)

theorem timeout_exit_except_registration_witness:
  "DeploySafeRound \<in> set round_types \<and> DeploySafeRound \<noteq> RegistrationRound
   \<and> DEPLOY_TIMEOUT \<in> set timeout_events
   \<and> next_round DeploySafeRound DEPLOY_TIMEOUT = Some SelectKeeperAStartupRound
   \<and> (\<exists>e \<in> set timeout_events. \<exists>t \<in> set round_types. next_round DeploySafeRound e = Some t)"
proof -
  have k: "DeploySafeRound \<in> set round_types"
    by (simp add: round_types_eq)
  have "DEPLOY_TIMEOUT \<in> set timeout_events"
    and "next_round DeploySafeRound DEPLOY_TIMEOUT = Some SelectKeeperAStartupRound"
    by (simp_all add: timeout_events_eq next_round_def transitions_of_simps)
  moreover from timeout_exit_except_registration k
  have "\<exists>e \<in> set timeout_events. \<exists>t \<in> set round_types. next_round DeploySafeRound e = Some t"
    by blast
  ultimately show ?thesis using k by simp
qed

end
